theory Spec2Isabelle
  imports Main
begin

section \<open>Formulas\<close>

text \<open>
  Modelled from the spec: the class \<open>Formula\<close> of \<open>propositions/syntax.py\<close>, which
  \<open>operators.py\<close> imports. A node is a constant (roots \<open>'T'\<close>, \<open>'F'\<close>), a variable
  (the root is its name), a unary node (root \<open>'~'\<close>, field \<open>first\<close>) or a binary node
  (root one of \<open>'&'\<close>, \<open>'|'\<close>, \<open>'->'\<close>, \<open>'+'\<close>, \<open>'<->'\<close>, \<open>'-&'\<close>, \<open>'-|'\<close>, fields
  \<open>first\<close> and \<open>second\<close>). The tag of a node fixes its arity, so a tree of this type
  is a well-formed formula.
\<close>

datatype unop = NOT

datatype binop = AND | OR | IMPLIES | XOR | IFF | NAND | NOR

datatype formula =
    Constant bool
  | Variable string
  | Unary unop formula
  | Binary binop formula formula

text \<open>The root strings of the source, by kind of node.\<close>

fun constant_root :: "bool \<Rightarrow> string" where
  "constant_root True = ''T''"
| "constant_root False = ''F''"

fun unary_root :: "unop \<Rightarrow> string" where
  "unary_root NOT = ''~''"

fun binary_root :: "binop \<Rightarrow> string" where
  "binary_root AND = ''&''"
| "binary_root OR = ''|''"
| "binary_root IMPLIES = ''->''"
| "binary_root XOR = ''+''"
| "binary_root IFF = ''<->''"
| "binary_root NAND = ''-&''"
| "binary_root NOR = ''-|''"

text \<open>
  \<open>is_constant(f1.root)\<close>, the source's test that a node is a constant. Its other
  tests of the kind of a node, \<open>is_variable\<close>, \<open>is_unary\<close> and \<open>is_binary\<close> of the
  root, are the patterns of the equations of the functions below; no two of them hold
  of one node.
\<close>

fun is_constant :: "formula \<Rightarrow> bool" where
  "is_constant (Constant b) = True"
| "is_constant (Variable x) = False"
| "is_constant (Unary u e) = False"
| "is_constant (Binary op a b) = False"

text \<open>
  Modelled from the spec: \<open>Formula.operators\<close> and \<open>Formula.variables\<close> of
  \<open>propositions/syntax.py\<close>, the set of operator and constant tags and the set of
  variable names that occur in a formula.
\<close>

fun operators :: "formula \<Rightarrow> string set" where
  "operators (Constant b) = {constant_root b}"
| "operators (Variable x) = {}"
| "operators (Unary u e) = insert (unary_root u) (operators e)"
| "operators (Binary op a b) = insert (binary_root op) (operators a \<union> operators b)"

fun variables :: "formula \<Rightarrow> string set" where
  "variables (Constant b) = {}"
| "variables (Variable x) = {x}"
| "variables (Unary u e) = variables e"
| "variables (Binary op a b) = variables a \<union> variables b"

text \<open>
  Modelled from the spec: \<open>evaluate\<close> of \<open>propositions/semantics.py\<close>, the truth value
  of a formula in a model, with the usual truth tables of the operators
  (\<open>-&\<close> is not-and, \<open>-|\<close> is not-or, \<open>+\<close> is exclusive or).
\<close>

fun binary_value :: "binop \<Rightarrow> bool \<Rightarrow> bool \<Rightarrow> bool" where
  "binary_value AND x y = (x \<and> y)"
| "binary_value OR x y = (x \<or> y)"
| "binary_value IMPLIES x y = (if x then y else True)"
| "binary_value XOR x y = (x \<noteq> y)"
| "binary_value IFF x y = (x = y)"
| "binary_value NAND x y = (\<not> (x \<and> y))"
| "binary_value NOR x y = (\<not> (x \<or> y))"

fun evaluate :: "formula \<Rightarrow> (string \<Rightarrow> bool) \<Rightarrow> bool" where
  "evaluate (Constant b) model = b"
| "evaluate (Variable x) model = model x"
| "evaluate (Unary NOT e) model = (\<not> evaluate e model)"
| "evaluate (Binary op a b) model = binary_value op (evaluate a model) (evaluate b model)"

section \<open>The conversions of \<open>operators.py\<close>\<close>

text \<open>
  \<open>to_not_and_or\<close>. The source's first test, \<open>type(formula) == bool\<close>, is false of
  every \<open>Formula\<close> and has no branch here. The last \<open>else\<close> of the binary case is the
  source's fall-through to \<open>return formula\<close>.
\<close>

function (domintros) to_not_and_or :: "formula \<Rightarrow> formula" where
  "to_not_and_or (Constant b) =
     (if b then Binary OR (Variable ''p'') (Unary NOT (Variable ''p''))
      else Binary AND (Variable ''p'') (Unary NOT (Variable ''p'')))"
| "to_not_and_or (Variable x) = Variable x"
| "to_not_and_or (Unary NOT e) = Unary NOT (to_not_and_or e)"
| "to_not_and_or (Binary op a b) =
     (let left = to_not_and_or a; right = to_not_and_or b in
      if op = AND \<or> op = OR then Binary op left right
      else if op = IMPLIES then Binary OR (Unary NOT left) right
      else if op = XOR then
        Binary OR (Binary AND left (Unary NOT right)) (Binary AND (Unary NOT left) right)
      else if op = IFF then
        Binary AND (Binary OR (Unary NOT left) right) (Binary OR left (Unary NOT right))
      else if op = NAND then Unary NOT (Binary AND left right)
      else if op = NOR then Unary NOT (Binary OR left right)
      else Binary op a b)"
  by pat_completeness auto
termination
  by (relation "measure size") auto

text \<open>\<open>convert_or\<close>, the local function of \<open>to_not_and\<close>.\<close>

function (domintros) convert_or :: "formula \<Rightarrow> formula" where
  "convert_or (Variable x) = Variable x"
| "convert_or (Unary u e) = Unary NOT (convert_or e)"
| "convert_or (Binary op a b) =
     (let left = convert_or a; right = convert_or b in
      if op = AND then Binary AND left right
      else if op = OR then Unary NOT (Binary AND (Unary NOT left) (Unary NOT right))
      else Binary op a b)"
| "convert_or (Constant b) = Constant b"
  by pat_completeness auto
termination
  by (relation "measure size") auto

definition to_not_and :: "formula \<Rightarrow> formula" where
  "to_not_and formula = (let f1 = to_not_and_or formula in convert_or f1)"

text \<open>
  \<open>convert_to_nand\<close>, the local function of \<open>to_nand\<close>. A binary node other than
  \<open>'&'\<close> is returned as it is, its children unconverted.
\<close>

function (domintros) convert_to_nand :: "formula \<Rightarrow> formula" where
  "convert_to_nand (Variable x) = Variable x"
| "convert_to_nand (Unary u e) = (let inner = convert_to_nand e in Binary NAND inner inner)"
| "convert_to_nand (Binary op a b) =
     (if op = AND then
        (let left = convert_to_nand a; right = convert_to_nand b;
             nand = Binary NAND left right
         in Binary NAND nand nand)
      else Binary op a b)"
| "convert_to_nand (Constant b) = Constant b"
  by pat_completeness auto
termination
  by (relation "measure size") auto

definition to_nand :: "formula \<Rightarrow> formula" where
  "to_nand formula = (let f1 = to_not_and formula in convert_to_nand f1)"

text \<open>
  \<open>convert_to_nand\<close> with a counter of the \<open>Formula('-&', ...)\<close> objects it constructs:
  one for a unary node (line 108), two for an \<open>'&'\<close> node (lines 112 and 113). The tree
  type does not show that both operands of such an object are one shared object.
\<close>

fun convert_to_nand_count :: "formula \<Rightarrow> formula \<times> nat" where
  "convert_to_nand_count (Variable x) = (Variable x, 0)"
| "convert_to_nand_count (Unary u e) =
     (let (inner, n) = convert_to_nand_count e in (Binary NAND inner inner, n + 1))"
| "convert_to_nand_count (Binary op a b) =
     (if op = AND then
        (let (left, n) = convert_to_nand_count a; (right, k) = convert_to_nand_count b;
             nand = Binary NAND left right
         in (Binary NAND nand nand, n + k + 2))
      else (Binary op a b, 0))"
| "convert_to_nand_count (Constant b) = (Constant b, 0)"

text \<open>\<open>convert_to_implies_not\<close>, the local function of \<open>to_implies_not\<close>.\<close>

function (domintros) convert_to_implies_not :: "formula \<Rightarrow> formula" where
  "convert_to_implies_not (Variable x) = Variable x"
| "convert_to_implies_not (Unary u e) = Unary NOT (convert_to_implies_not e)"
| "convert_to_implies_not (Binary op a b) =
     (let left = convert_to_implies_not a; right = convert_to_implies_not b in
      if op = AND then Unary NOT (Binary IMPLIES left (Unary NOT right))
      else if op = OR then Binary IMPLIES (Unary NOT left) right
      else Binary op a b)"
| "convert_to_implies_not (Constant b) = Constant b"
  by pat_completeness auto
termination
  by (relation "measure size") auto

definition to_implies_not :: "formula \<Rightarrow> formula" where
  "to_implies_not formula =
     (let f1 = to_not_and_or formula in
      if is_constant f1 then
        (if f1 = Constant True then Binary IMPLIES (Variable ''p'') (Variable ''p'')
         else Unary NOT (Binary IMPLIES (Variable ''p'') (Variable ''p'')))
      else convert_to_implies_not f1)"

text \<open>\<open>convert_to_implies_false\<close>, the local function of \<open>to_implies_false\<close>.\<close>

function (domintros) convert_to_implies_false :: "formula \<Rightarrow> formula" where
  "convert_to_implies_false (Variable x) = Variable x"
| "convert_to_implies_false (Unary u e) =
     (let inner = convert_to_implies_false e in Binary IMPLIES inner (Constant False))"
| "convert_to_implies_false (Binary op a b) =
     (if op = IMPLIES then
        (let left = convert_to_implies_false a; right = convert_to_implies_false b
         in Binary IMPLIES left right)
      else Binary op a b)"
| "convert_to_implies_false (Constant b) = Constant b"
  by pat_completeness auto
termination
  by (relation "measure size") auto

definition to_implies_false :: "formula \<Rightarrow> formula" where
  "to_implies_false formula =
     (let f1 = to_implies_not formula in
      if is_constant f1 then
        (if f1 = Constant True then Binary IMPLIES (Constant False) (Constant False)
         else convert_to_implies_false f1)
      else convert_to_implies_false f1)"

section \<open>Measures of a formula\<close>

text \<open>The numbers of unary nodes, of \<open>'&'\<close> nodes and of \<open>'-&'\<close> nodes of a tree.\<close>

fun not_occurrences :: "formula \<Rightarrow> nat" where
  "not_occurrences (Constant b) = 0"
| "not_occurrences (Variable x) = 0"
| "not_occurrences (Unary u e) = 1 + not_occurrences e"
| "not_occurrences (Binary op a b) = not_occurrences a + not_occurrences b"

fun and_occurrences :: "formula \<Rightarrow> nat" where
  "and_occurrences (Constant b) = 0"
| "and_occurrences (Variable x) = 0"
| "and_occurrences (Unary u e) = and_occurrences e"
| "and_occurrences (Binary op a b) =
     (if op = AND then 1 else 0) + and_occurrences a + and_occurrences b"

fun nand_occurrences :: "formula \<Rightarrow> nat" where
  "nand_occurrences (Constant b) = 0"
| "nand_occurrences (Variable x) = 0"
| "nand_occurrences (Unary u e) = nand_occurrences e"
| "nand_occurrences (Binary op a b) =
     (if op = NAND then 1 else 0) + nand_occurrences a + nand_occurrences b"

section \<open>The call stack\<close>

text \<open>
  The interpreter gives every call of a function a frame of its call stack and raises
  \<open>RecursionError\<close> on a call for which no frame is left.
\<close>

datatype error = RecursionError

text \<open>
  The number of nodes on the longest path from the root of a formula to a leaf, and the
  formula with \<open>k\<close> negations in front of \<open>f\<close>.
\<close>

fun depth :: "formula \<Rightarrow> nat" where
  "depth (Constant b) = 1"
| "depth (Variable x) = 1"
| "depth (Unary u e) = 1 + depth e"
| "depth (Binary op a b) = 1 + max (depth a) (depth b)"

fun nested_not :: "nat \<Rightarrow> formula \<Rightarrow> formula" where
  "nested_not 0 f = f"
| "nested_not (Suc k) f = Unary NOT (nested_not k f)"

text \<open>
  The functions of \<open>operators.py\<close> once more, run with \<open>n\<close> frames left for their
  calls: the recursion limit of the interpreter less the frames in use when the
  operation is called and the frames that its calls into \<open>syntax.py\<close> need. A call
  takes one frame and raises \<open>RecursionError\<close> when there is none; the calls it makes
  have the frames that remain. An error of a call is the error of its caller, which
  handles no exception. The branches are those of the functions above.
\<close>

fun to_not_and_or_frames :: "nat \<Rightarrow> formula \<Rightarrow> error + formula" where
  "to_not_and_or_frames 0 f = Inl RecursionError"
| "to_not_and_or_frames (Suc n) (Constant b) =
     Inr (if b then Binary OR (Variable ''p'') (Unary NOT (Variable ''p''))
          else Binary AND (Variable ''p'') (Unary NOT (Variable ''p'')))"
| "to_not_and_or_frames (Suc n) (Variable x) = Inr (Variable x)"
| "to_not_and_or_frames (Suc n) (Unary NOT e) =
     (case to_not_and_or_frames n e of
        Inl err \<Rightarrow> Inl err
      | Inr e' \<Rightarrow> Inr (Unary NOT e'))"
| "to_not_and_or_frames (Suc n) (Binary op a b) =
     (case to_not_and_or_frames n a of
        Inl err \<Rightarrow> Inl err
      | Inr left \<Rightarrow>
          (case to_not_and_or_frames n b of
             Inl err \<Rightarrow> Inl err
           | Inr right \<Rightarrow>
               Inr (if op = AND \<or> op = OR then Binary op left right
                    else if op = IMPLIES then Binary OR (Unary NOT left) right
                    else if op = XOR then
                      Binary OR (Binary AND left (Unary NOT right))
                        (Binary AND (Unary NOT left) right)
                    else if op = IFF then
                      Binary AND (Binary OR (Unary NOT left) right)
                        (Binary OR left (Unary NOT right))
                    else if op = NAND then Unary NOT (Binary AND left right)
                    else if op = NOR then Unary NOT (Binary OR left right)
                    else Binary op a b)))"

fun convert_or_frames :: "nat \<Rightarrow> formula \<Rightarrow> error + formula" where
  "convert_or_frames 0 f = Inl RecursionError"
| "convert_or_frames (Suc n) (Variable x) = Inr (Variable x)"
| "convert_or_frames (Suc n) (Unary u e) =
     (case convert_or_frames n e of
        Inl err \<Rightarrow> Inl err
      | Inr e' \<Rightarrow> Inr (Unary NOT e'))"
| "convert_or_frames (Suc n) (Binary op a b) =
     (case convert_or_frames n a of
        Inl err \<Rightarrow> Inl err
      | Inr left \<Rightarrow>
          (case convert_or_frames n b of
             Inl err \<Rightarrow> Inl err
           | Inr right \<Rightarrow>
               Inr (if op = AND then Binary AND left right
                    else if op = OR then
                      Unary NOT (Binary AND (Unary NOT left) (Unary NOT right))
                    else Binary op a b)))"
| "convert_or_frames (Suc n) (Constant b) = Inr (Constant b)"

fun to_not_and_frames :: "nat \<Rightarrow> formula \<Rightarrow> error + formula" where
  "to_not_and_frames 0 formula = Inl RecursionError"
| "to_not_and_frames (Suc n) formula =
     (case to_not_and_or_frames n formula of
        Inl err \<Rightarrow> Inl err
      | Inr f1 \<Rightarrow> convert_or_frames n f1)"

fun convert_to_nand_frames :: "nat \<Rightarrow> formula \<Rightarrow> error + formula" where
  "convert_to_nand_frames 0 f = Inl RecursionError"
| "convert_to_nand_frames (Suc n) (Variable x) = Inr (Variable x)"
| "convert_to_nand_frames (Suc n) (Unary u e) =
     (case convert_to_nand_frames n e of
        Inl err \<Rightarrow> Inl err
      | Inr inner \<Rightarrow> Inr (Binary NAND inner inner))"
| "convert_to_nand_frames (Suc n) (Binary op a b) =
     (if op = AND then
        (case convert_to_nand_frames n a of
           Inl err \<Rightarrow> Inl err
         | Inr left \<Rightarrow>
             (case convert_to_nand_frames n b of
                Inl err \<Rightarrow> Inl err
              | Inr right \<Rightarrow>
                  (let nand = Binary NAND left right in Inr (Binary NAND nand nand))))
      else Inr (Binary op a b))"
| "convert_to_nand_frames (Suc n) (Constant b) = Inr (Constant b)"

fun to_nand_frames :: "nat \<Rightarrow> formula \<Rightarrow> error + formula" where
  "to_nand_frames 0 formula = Inl RecursionError"
| "to_nand_frames (Suc n) formula =
     (case to_not_and_frames n formula of
        Inl err \<Rightarrow> Inl err
      | Inr f1 \<Rightarrow> convert_to_nand_frames n f1)"

fun convert_to_implies_not_frames :: "nat \<Rightarrow> formula \<Rightarrow> error + formula" where
  "convert_to_implies_not_frames 0 f = Inl RecursionError"
| "convert_to_implies_not_frames (Suc n) (Variable x) = Inr (Variable x)"
| "convert_to_implies_not_frames (Suc n) (Unary u e) =
     (case convert_to_implies_not_frames n e of
        Inl err \<Rightarrow> Inl err
      | Inr e' \<Rightarrow> Inr (Unary NOT e'))"
| "convert_to_implies_not_frames (Suc n) (Binary op a b) =
     (case convert_to_implies_not_frames n a of
        Inl err \<Rightarrow> Inl err
      | Inr left \<Rightarrow>
          (case convert_to_implies_not_frames n b of
             Inl err \<Rightarrow> Inl err
           | Inr right \<Rightarrow>
               Inr (if op = AND then Unary NOT (Binary IMPLIES left (Unary NOT right))
                    else if op = OR then Binary IMPLIES (Unary NOT left) right
                    else Binary op a b)))"
| "convert_to_implies_not_frames (Suc n) (Constant b) = Inr (Constant b)"

fun to_implies_not_frames :: "nat \<Rightarrow> formula \<Rightarrow> error + formula" where
  "to_implies_not_frames 0 formula = Inl RecursionError"
| "to_implies_not_frames (Suc n) formula =
     (case to_not_and_or_frames n formula of
        Inl err \<Rightarrow> Inl err
      | Inr f1 \<Rightarrow>
          if is_constant f1 then
            (if f1 = Constant True then
               Inr (Binary IMPLIES (Variable ''p'') (Variable ''p''))
             else Inr (Unary NOT (Binary IMPLIES (Variable ''p'') (Variable ''p''))))
          else convert_to_implies_not_frames n f1)"

fun convert_to_implies_false_frames :: "nat \<Rightarrow> formula \<Rightarrow> error + formula" where
  "convert_to_implies_false_frames 0 f = Inl RecursionError"
| "convert_to_implies_false_frames (Suc n) (Variable x) = Inr (Variable x)"
| "convert_to_implies_false_frames (Suc n) (Unary u e) =
     (case convert_to_implies_false_frames n e of
        Inl err \<Rightarrow> Inl err
      | Inr inner \<Rightarrow> Inr (Binary IMPLIES inner (Constant False)))"
| "convert_to_implies_false_frames (Suc n) (Binary op a b) =
     (if op = IMPLIES then
        (case convert_to_implies_false_frames n a of
           Inl err \<Rightarrow> Inl err
         | Inr left \<Rightarrow>
             (case convert_to_implies_false_frames n b of
                Inl err \<Rightarrow> Inl err
              | Inr right \<Rightarrow> Inr (Binary IMPLIES left right)))
      else Inr (Binary op a b))"
| "convert_to_implies_false_frames (Suc n) (Constant b) = Inr (Constant b)"

fun to_implies_false_frames :: "nat \<Rightarrow> formula \<Rightarrow> error + formula" where
  "to_implies_false_frames 0 formula = Inl RecursionError"
| "to_implies_false_frames (Suc n) formula =
     (case to_implies_not_frames n formula of
        Inl err \<Rightarrow> Inl err
      | Inr f1 \<Rightarrow>
          if is_constant f1 then
            (if f1 = Constant True then
               Inr (Binary IMPLIES (Constant False) (Constant False))
             else convert_to_implies_false_frames n f1)
          else convert_to_implies_false_frames n f1)"

section \<open>Auxiliary facts\<close>

subsection \<open>Truth values\<close>

lemma evaluate_to_not_and_or: "evaluate (to_not_and_or f) model = evaluate f model"
proof (induction f)
  case (Unary u e)
  then show ?case by (cases u) simp
next
  case (Binary op a b)
  then show ?case by (cases op) (auto simp add: Let_def)
qed simp_all

lemma evaluate_convert_or: "evaluate (convert_or f) model = evaluate f model"
proof (induction f)
  case (Unary u e)
  then show ?case by (cases u) simp
next
  case (Binary op a b)
  then show ?case by (cases op) (simp_all add: Let_def)
qed simp_all

lemma evaluate_convert_to_nand: "evaluate (convert_to_nand f) model = evaluate f model"
proof (induction f)
  case (Unary u e)
  then show ?case by (cases u) (simp add: Let_def)
next
  case (Binary op a b)
  then show ?case by (cases op) (simp_all add: Let_def)
qed simp_all

lemma evaluate_convert_to_implies_not:
  "evaluate (convert_to_implies_not f) model = evaluate f model"
proof (induction f)
  case (Unary u e)
  then show ?case by (cases u) simp
next
  case (Binary op a b)
  then show ?case by (cases op) (simp_all add: Let_def)
qed simp_all

lemma evaluate_convert_to_implies_false:
  "evaluate (convert_to_implies_false f) model = evaluate f model"
proof (induction f)
  case (Unary u e)
  then show ?case by (cases u) (simp add: Let_def)
next
  case (Binary op a b)
  then show ?case by (cases op) (simp_all add: Let_def)
qed simp_all

lemma not_constant_to_not_and_or: "\<not> is_constant (to_not_and_or f)"
proof (cases f)
  case (Unary u e)
  then show ?thesis by (cases u) simp
next
  case (Binary op a b)
  then show ?thesis by (cases op) (simp_all add: Let_def)
qed simp_all

lemma evaluate_fresh: "x \<notin> variables f \<Longrightarrow> evaluate f (model(x := v)) = evaluate f model"
proof (induction f)
  case (Unary u e)
  then show ?case by (cases u) simp
qed simp_all

subsection \<open>Alphabets\<close>

lemma operators_to_not_and_or: "operators (to_not_and_or f) \<subseteq> {''~'', ''&'', ''|''}"
proof (induction f)
  case (Unary u e)
  then show ?case by (cases u) simp
next
  case (Binary op a b)
  then show ?case by (cases op) (simp_all add: Let_def)
qed simp_all

lemma operators_convert_or:
  "operators f \<subseteq> {''~'', ''&'', ''|''} \<Longrightarrow> operators (convert_or f) \<subseteq> {''~'', ''&''}"
proof (induction f)
  case (Constant b)
  then show ?case by (cases b) simp_all
next
  case (Unary u e)
  then show ?case by simp
next
  case (Binary op a b)
  then show ?case by (cases op) (simp_all add: Let_def)
qed simp_all

lemma operators_convert_to_nand:
  "operators f \<subseteq> {''~'', ''&''} \<Longrightarrow> operators (convert_to_nand f) \<subseteq> {''-&''}"
proof (induction f)
  case (Constant b)
  then show ?case by (cases b) simp_all
next
  case (Unary u e)
  then show ?case by (simp add: Let_def)
next
  case (Binary op a b)
  then show ?case by (cases op) (simp_all add: Let_def)
qed simp_all

lemma operators_convert_to_implies_not:
  "operators f \<subseteq> {''~'', ''&'', ''|''} \<Longrightarrow>
   operators (convert_to_implies_not f) \<subseteq> {''->'', ''~''}"
proof (induction f)
  case (Constant b)
  then show ?case by (cases b) simp_all
next
  case (Unary u e)
  then show ?case by simp
next
  case (Binary op a b)
  then show ?case by (cases op) (simp_all add: Let_def)
qed simp_all

lemma operators_convert_to_implies_false:
  "operators f \<subseteq> {''->'', ''~''} \<Longrightarrow>
   operators (convert_to_implies_false f) \<subseteq> {''->'', ''F''}"
proof (induction f)
  case (Constant b)
  then show ?case by (cases b) simp_all
next
  case (Unary u e)
  then show ?case by (simp add: Let_def)
next
  case (Binary op a b)
  then show ?case by (cases op) (simp_all add: Let_def)
qed simp_all

lemma operators_not_constant:
  "operators f \<subseteq> {''->'', ''~''} \<Longrightarrow> \<not> is_constant f"
proof (cases f)
  case (Constant b)
  assume "operators f \<subseteq> {''->'', ''~''}"
  with Constant show ?thesis by (cases b) simp_all
qed simp_all

subsection \<open>Formulas a conversion leaves as they are\<close>

lemma to_not_and_or_id:
  "operators f \<subseteq> {''~'', ''&'', ''|''} \<Longrightarrow> to_not_and_or f = f"
proof (induction f)
  case (Constant b)
  then show ?case by (cases b) simp_all
next
  case (Unary u e)
  then show ?case by (cases u) simp
next
  case (Binary op a b)
  then show ?case by (cases op) (simp_all add: Let_def)
qed simp_all

lemma convert_or_id:
  "operators f \<subseteq> {''~'', ''&''} \<Longrightarrow> convert_or f = f"
proof (induction f)
  case (Unary u e)
  then show ?case by (cases u) simp
next
  case (Binary op a b)
  then show ?case by (cases op) (simp_all add: Let_def)
qed simp_all

subsection \<open>Counting \<open>-&\<close> nodes\<close>

lemma fst_convert_to_nand_count: "fst (convert_to_nand_count f) = convert_to_nand f"
proof (induction f)
  case (Unary u e)
  then show ?case by (simp add: Let_def case_prod_beta)
next
  case (Binary op a b)
  then show ?case by (cases op) (simp_all add: Let_def case_prod_beta)
qed simp_all

lemma snd_convert_to_nand_count:
  "operators f \<subseteq> {''~'', ''&''} \<Longrightarrow>
   snd (convert_to_nand_count f) = not_occurrences f + 2 * and_occurrences f"
proof (induction f)
  case (Unary u e)
  then show ?case by (simp add: Let_def case_prod_beta)
next
  case (Binary op a b)
  then show ?case by (cases op) (simp_all add: Let_def case_prod_beta)
qed simp_all

lemma nand_occurrences_convert_to_nand:
  "operators f \<subseteq> {''~'', ''&''} \<Longrightarrow>
   not_occurrences f + 2 * and_occurrences f \<le> nand_occurrences (convert_to_nand f)"
proof (induction f)
  case (Unary u e)
  then show ?case by (simp add: Let_def)
next
  case (Binary op a b)
  then show ?case by (cases op) (auto simp add: Let_def)
qed simp_all

subsection \<open>The operations as compositions\<close>

lemma evaluate_to_not_and: "evaluate (to_not_and f) model = evaluate f model"
  by (simp add: to_not_and_def evaluate_convert_or evaluate_to_not_and_or)

lemma evaluate_to_nand: "evaluate (to_nand f) model = evaluate f model"
  by (simp add: to_nand_def evaluate_convert_to_nand evaluate_to_not_and)

lemma to_implies_not_eq: "to_implies_not f = convert_to_implies_not (to_not_and_or f)"
  by (simp add: to_implies_not_def Let_def not_constant_to_not_and_or)

lemma evaluate_to_implies_not: "evaluate (to_implies_not f) model = evaluate f model"
  by (simp add: to_implies_not_eq evaluate_convert_to_implies_not evaluate_to_not_and_or)

lemma operators_to_not_and: "operators (to_not_and f) \<subseteq> {''~'', ''&''}"
  by (simp add: to_not_and_def operators_convert_or operators_to_not_and_or)

lemma operators_to_nand: "operators (to_nand f) \<subseteq> {''-&''}"
  by (simp add: to_nand_def operators_convert_to_nand operators_to_not_and)

lemma operators_to_implies_not: "operators (to_implies_not f) \<subseteq> {''->'', ''~''}"
  by (simp add: to_implies_not_eq operators_convert_to_implies_not operators_to_not_and_or)

lemma not_constant_to_implies_not: "\<not> is_constant (to_implies_not f)"
  by (rule operators_not_constant) (rule operators_to_implies_not)

lemma to_implies_false_eq: "to_implies_false f = convert_to_implies_false (to_implies_not f)"
  by (simp add: to_implies_false_def Let_def not_constant_to_implies_not)

lemma evaluate_to_implies_false: "evaluate (to_implies_false f) model = evaluate f model"
  by (simp add: to_implies_false_eq evaluate_convert_to_implies_false evaluate_to_implies_not)

lemma operators_to_implies_false: "operators (to_implies_false f) \<subseteq> {''->'', ''F''}"
  by (simp add: to_implies_false_eq operators_convert_to_implies_false operators_to_implies_not)

lemma not_and_subset: "operators f \<subseteq> {''~'', ''&''} \<Longrightarrow> operators f \<subseteq> {''~'', ''&'', ''|''}"
  by auto

lemma to_not_and_id: "operators f \<subseteq> {''~'', ''&''} \<Longrightarrow> to_not_and f = f"
  by (simp add: to_not_and_def to_not_and_or_id not_and_subset convert_or_id)

lemma to_not_and_fixed: "to_not_and (to_not_and f) = to_not_and f"
  by (rule to_not_and_id) (rule operators_to_not_and)

subsection \<open>Frames and depth\<close>

lemma depth_positive: "0 < depth f"
  by (cases f) simp_all

lemma to_not_and_or_frames_eq:
  "to_not_and_or_frames n f =
     (if depth f \<le> n then Inr (to_not_and_or f) else Inl RecursionError)"
proof (induction n f rule: to_not_and_or_frames.induct)
  case (1 f)
  then show ?case using depth_positive [of f] by simp
qed (simp_all add: Let_def)

lemma convert_or_frames_eq:
  "convert_or_frames n f =
     (if depth f \<le> n then Inr (convert_or f) else Inl RecursionError)"
proof (induction n f rule: convert_or_frames.induct)
  case (1 f)
  then show ?case using depth_positive [of f] by simp
qed (simp_all add: Let_def)

lemma convert_to_implies_not_frames_eq:
  "convert_to_implies_not_frames n f =
     (if depth f \<le> n then Inr (convert_to_implies_not f) else Inl RecursionError)"
proof (induction n f rule: convert_to_implies_not_frames.induct)
  case (1 f)
  then show ?case using depth_positive [of f] by simp
qed (simp_all add: Let_def)

lemma convert_to_nand_frames_eq:
  "operators f \<subseteq> {''~'', ''&''} \<Longrightarrow>
   convert_to_nand_frames n f =
     (if depth f \<le> n then Inr (convert_to_nand f) else Inl RecursionError)"
proof (induction n f rule: convert_to_nand_frames.induct)
  case (1 f)
  then show ?case using depth_positive [of f] by simp
next
  case (4 n op a b)
  then show ?case by (cases op) (simp_all add: Let_def)
next
  case (5 n b)
  then show ?case by (cases b) simp_all
qed (simp_all add: Let_def)

lemma convert_to_implies_false_frames_eq:
  "operators f \<subseteq> {''->'', ''~''} \<Longrightarrow>
   convert_to_implies_false_frames n f =
     (if depth f \<le> n then Inr (convert_to_implies_false f) else Inl RecursionError)"
proof (induction n f rule: convert_to_implies_false_frames.induct)
  case (1 f)
  then show ?case using depth_positive [of f] by simp
next
  case (4 n op a b)
  then show ?case by (cases op) (simp_all add: Let_def)
next
  case (5 n b)
  then show ?case by (cases b) simp_all
qed (simp_all add: Let_def)

lemma depth_to_not_and_or: "depth f \<le> depth (to_not_and_or f)"
proof (induction f)
  case (Unary u e)
  then show ?case by (cases u) simp
next
  case (Binary op a b)
  then show ?case by (cases op) (auto simp add: Let_def)
qed simp_all

lemma to_not_and_frames_eq:
  "to_not_and_frames n f =
     (if depth (to_not_and_or f) + 1 \<le> n then Inr (to_not_and f) else Inl RecursionError)"
proof (cases n)
  case 0
  then show ?thesis by simp
next
  case (Suc m)
  then show ?thesis
    using depth_to_not_and_or [of f]
    by (simp add: to_not_and_or_frames_eq convert_or_frames_eq to_not_and_def)
qed

lemma to_nand_frames_eq:
  "to_nand_frames n f =
     (if depth (to_not_and_or f) + 2 \<le> n \<and> depth (to_not_and f) + 1 \<le> n
      then Inr (to_nand f) else Inl RecursionError)"
proof (cases n)
  case 0
  then show ?thesis by simp
next
  case (Suc m)
  then show ?thesis
    by (simp add: to_not_and_frames_eq convert_to_nand_frames_eq operators_to_not_and
        to_nand_def)
qed

lemma to_implies_not_frames_eq:
  "to_implies_not_frames n f =
     (if depth (to_not_and_or f) + 1 \<le> n then Inr (to_implies_not f)
      else Inl RecursionError)"
proof (cases n)
  case 0
  then show ?thesis by simp
next
  case (Suc m)
  then show ?thesis
    using depth_to_not_and_or [of f]
    by (simp add: to_not_and_or_frames_eq convert_to_implies_not_frames_eq
        not_constant_to_not_and_or to_implies_not_eq)
qed

lemma to_implies_false_frames_eq:
  "to_implies_false_frames n f =
     (if depth (to_not_and_or f) + 2 \<le> n \<and> depth (to_implies_not f) + 1 \<le> n
      then Inr (to_implies_false f) else Inl RecursionError)"
proof (cases n)
  case 0
  then show ?thesis by simp
next
  case (Suc m)
  then show ?thesis
    by (simp add: to_implies_not_frames_eq convert_to_implies_false_frames_eq
        operators_to_implies_not not_constant_to_implies_not to_implies_false_eq)
qed

lemma depth_nested_not: "depth (nested_not k f) = k + depth f"
  by (induction k) simp_all

lemma operators_nested_not: "operators (nested_not k (Variable x)) \<subseteq> {''~''}"
  by (induction k) simp_all

lemma depth_to_not_and_or_implies_not:
  "operators f \<subseteq> {''->'', ''~''} \<Longrightarrow> depth (to_not_and_or f) + 1 \<le> 2 * depth f"
proof (induction f)
  case (Constant b)
  then show ?case by (cases b) simp_all
next
  case (Unary u e)
  then show ?case by (cases u) simp
next
  case (Binary op a b)
  then show ?case by (cases op) (auto simp add: Let_def)
qed simp_all

lemma depth_to_implies_not_implies_not:
  "operators f \<subseteq> {''->'', ''~''} \<Longrightarrow>
   depth (convert_to_implies_not (to_not_and_or f)) + 2 \<le> 3 * depth f"
proof (induction f)
  case (Constant b)
  then show ?case by (cases b) simp_all
next
  case (Unary u e)
  then show ?case by (cases u) simp
next
  case (Binary op a b)
  then show ?case by (cases op) (auto simp add: Let_def)
qed simp_all

lemma subset_not_and_or: "operators f \<subseteq> {''~''} \<Longrightarrow> operators f \<subseteq> {''~'', ''&'', ''|''}"
  by auto

lemma subset_not_and: "operators f \<subseteq> {''~''} \<Longrightarrow> operators f \<subseteq> {''~'', ''&''}"
  by auto

section \<open>Claims\<close>

text \<open>
  C1. Each of the five conversions keeps the truth value of the formula in every model.
  The idiom variable \<open>p\<close> is bound by the model like any other variable; when \<open>p\<close> is
  not a variable of the input, the value of the converted formula is the value of the
  input whichever truth value \<open>p\<close> is bound to.
\<close>

theorem equivalence_preservation:
  "evaluate (to_not_and_or f) model = evaluate f model
   \<and> evaluate (to_not_and f) model = evaluate f model
   \<and> evaluate (to_nand f) model = evaluate f model
   \<and> evaluate (to_implies_not f) model = evaluate f model
   \<and> evaluate (to_implies_false f) model = evaluate f model
   \<and> (''p'' \<notin> variables f \<longrightarrow>
        evaluate (to_not_and_or f) (model(''p'' := v)) = evaluate f model
        \<and> evaluate (to_not_and f) (model(''p'' := v)) = evaluate f model
        \<and> evaluate (to_nand f) (model(''p'' := v)) = evaluate f model
        \<and> evaluate (to_implies_not f) (model(''p'' := v)) = evaluate f model
        \<and> evaluate (to_implies_false f) (model(''p'' := v)) = evaluate f model)"
  by (simp add: evaluate_to_not_and_or evaluate_to_not_and evaluate_to_nand
      evaluate_to_implies_not evaluate_to_implies_false evaluate_fresh)

theorem equivalence_preservation_witness:
  "''p'' \<notin> variables (Binary IFF (Variable ''q'') (Constant True))
   \<and> to_not_and_or (Binary IFF (Variable ''q'') (Constant True)) =
       Binary AND
         (Binary OR (Unary NOT (Variable ''q''))
            (Binary OR (Variable ''p'') (Unary NOT (Variable ''p''))))
         (Binary OR (Variable ''q'')
            (Unary NOT (Binary OR (Variable ''p'') (Unary NOT (Variable ''p'')))))
   \<and> evaluate (Binary IFF (Variable ''q'') (Constant True)) (\<lambda>x. False) = False
   \<and> (\<forall>v. evaluate (to_not_and_or (Binary IFF (Variable ''q'') (Constant True)))
              ((\<lambda>x. False)(''p'' := v)) = False
          \<and> evaluate (to_not_and (Binary IFF (Variable ''q'') (Constant True)))
              ((\<lambda>x. False)(''p'' := v)) = False
          \<and> evaluate (to_nand (Binary IFF (Variable ''q'') (Constant True)))
              ((\<lambda>x. False)(''p'' := v)) = False
          \<and> evaluate (to_implies_not (Binary IFF (Variable ''q'') (Constant True)))
              ((\<lambda>x. False)(''p'' := v)) = False
          \<and> evaluate (to_implies_false (Binary IFF (Variable ''q'') (Constant True)))
              ((\<lambda>x. False)(''p'' := v)) = False)"
  using equivalence_preservation
    [of "Binary IFF (Variable ''q'') (Constant True)" "\<lambda>x. False"]
  by (simp add: Let_def)

text \<open>
  C2. The operator and constant tags of the output of each conversion lie in its target
  alphabet: \<open>~\<close>, \<open>&\<close>, \<open>|\<close> for \<open>to_not_and_or\<close>; \<open>~\<close>, \<open>&\<close> for \<open>to_not_and\<close>;
  \<open>-&\<close> for \<open>to_nand\<close>; \<open>->\<close>, \<open>~\<close> for \<open>to_implies_not\<close>; \<open>->\<close>, \<open>F\<close> for
  \<open>to_implies_false\<close>. Variables carry no tag.
\<close>

theorem alphabet_containment:
  "operators (to_not_and_or f) \<subseteq> {''~'', ''&'', ''|''}
   \<and> operators (to_not_and f) \<subseteq> {''~'', ''&''}
   \<and> operators (to_nand f) \<subseteq> {''-&''}
   \<and> operators (to_implies_not f) \<subseteq> {''->'', ''~''}
   \<and> operators (to_implies_false f) \<subseteq> {''->'', ''F''}"
  by (simp only: operators_to_not_and_or operators_to_not_and operators_to_nand
      operators_to_implies_not operators_to_implies_false simp_thms)

text \<open>
  C3. On the constant \<open>T\<close>, \<open>to_not_and_or\<close> returns \<open>(p | ~p)\<close>. \<open>to_implies_not\<close>
  converts that formula, which is no constant, so its test \<open>is_constant(f1.root)\<close>
  fails and the branch that builds \<open>(p -> p)\<close> is not taken: the result is
  \<open>(~p -> ~p)\<close>.
\<close>

theorem constant_true_conversions:
  "to_not_and_or (Constant True) = Binary OR (Variable ''p'') (Unary NOT (Variable ''p''))
   \<and> to_implies_not (Constant True) =
       Binary IMPLIES (Unary NOT (Variable ''p'')) (Unary NOT (Variable ''p''))
   \<and> to_implies_not (Constant True) \<noteq> Binary IMPLIES (Variable ''p'') (Variable ''p'')"
  by (simp add: to_implies_not_def Let_def)

text \<open>
  C4. \<open>to_nand\<close> applied to the output of \<open>to_not_and\<close> applied to the output of
  \<open>to_not_and_or\<close> is the very formula that \<open>to_nand\<close> returns on the input, hence
  equivalent to it.
\<close>

theorem nand_chaining:
  "to_nand (to_not_and (to_not_and_or f)) = to_nand f
   \<and> evaluate (to_nand (to_not_and (to_not_and_or f))) model = evaluate (to_nand f) model"
proof -
  have "to_not_and_or (to_not_and_or f) = to_not_and_or f"
    by (rule to_not_and_or_id) (rule operators_to_not_and_or)
  then have "to_not_and (to_not_and_or f) = to_not_and f"
    by (simp add: to_not_and_def)
  then have "to_nand (to_not_and (to_not_and_or f)) = to_nand f"
    by (simp add: to_nand_def to_not_and_fixed)
  then show ?thesis by simp
qed

text \<open>
  C5. On a formula \<open>(a -> b)\<close>, \<open>to_not_and_or\<close> returns \<open>(~a' | b')\<close>, where \<open>a'\<close> and
  \<open>b'\<close> are the converted children; on \<open>(p -> q)\<close> it returns \<open>(~p | q)\<close>.
\<close>

theorem to_not_and_or_implies:
  "to_not_and_or (Binary IMPLIES a b) =
     Binary OR (Unary NOT (to_not_and_or a)) (to_not_and_or b)
   \<and> to_not_and_or (Binary IMPLIES (Variable ''p'') (Variable ''q'')) =
     Binary OR (Unary NOT (Variable ''p'')) (Variable ''q'')"
  by simp

text \<open>
  C6, as stated, fails: \<open>~p\<close> is a formula over variables, \<open>~\<close> and \<open>&\<close> with one
  operator occurrence, and its conversion \<open>(p -& p)\<close> has one \<open>-&\<close>, not two.
\<close>

theorem nand_count_counterexample:
  "operators (Unary NOT (Variable ''p'')) \<subseteq> {''~'', ''&''}
   \<and> convert_to_nand (Unary NOT (Variable ''p'')) = Binary NAND (Variable ''p'') (Variable ''p'')
   \<and> to_nand (Unary NOT (Variable ''p'')) = Binary NAND (Variable ''p'') (Variable ''p'')
   \<and> nand_occurrences (convert_to_nand (Unary NOT (Variable ''p''))) = 1
   \<and> nand_occurrences (convert_to_nand (Unary NOT (Variable ''p''))) \<noteq>
       2 * (not_occurrences (Unary NOT (Variable ''p''))
            + and_occurrences (Unary NOT (Variable ''p'')))"
  by (simp add: to_nand_def to_not_and_def Let_def)

text \<open>
  C6, amended. For a formula over variables, \<open>~\<close> and \<open>&\<close>, the conversion constructs
  one \<open>-&\<close> node for each \<open>~\<close> node and two for each \<open>&\<close> node: their number is the
  number of \<open>~\<close> nodes plus twice the number of \<open>&\<close> nodes. \<open>to_nand\<close> returns the
  converted formula. In the output read as a tree, where an operand used twice is
  counted twice, there are at least as many \<open>-&\<close> nodes.
\<close>

theorem nand_applications:
  assumes "operators g \<subseteq> {''~'', ''&''}"
  shows "convert_to_nand_count g =
           (convert_to_nand g, not_occurrences g + 2 * and_occurrences g)
         \<and> to_nand g = convert_to_nand g
         \<and> not_occurrences g + 2 * and_occurrences g \<le> nand_occurrences (convert_to_nand g)"
proof -
  have "convert_to_nand_count g =
          (convert_to_nand g, not_occurrences g + 2 * and_occurrences g)"
    using fst_convert_to_nand_count [of g] snd_convert_to_nand_count [OF assms]
    by (simp add: prod_eq_iff)
  moreover have "to_nand g = convert_to_nand g"
    using assms by (simp add: to_nand_def to_not_and_id)
  ultimately show ?thesis
    using nand_occurrences_convert_to_nand [OF assms] by simp
qed

theorem nand_applications_witness:
  "operators (Binary AND (Unary NOT (Variable ''p'')) (Variable ''q'')) \<subseteq> {''~'', ''&''}
   \<and> convert_to_nand_count (Binary AND (Unary NOT (Variable ''p'')) (Variable ''q'')) =
       (Binary NAND
          (Binary NAND (Binary NAND (Variable ''p'') (Variable ''p'')) (Variable ''q''))
          (Binary NAND (Binary NAND (Variable ''p'') (Variable ''p'')) (Variable ''q'')),
        3)
   \<and> to_nand (Binary AND (Unary NOT (Variable ''p'')) (Variable ''q'')) =
       Binary NAND
          (Binary NAND (Binary NAND (Variable ''p'') (Variable ''p'')) (Variable ''q''))
          (Binary NAND (Binary NAND (Variable ''p'') (Variable ''p'')) (Variable ''q''))
   \<and> nand_occurrences
        (convert_to_nand (Binary AND (Unary NOT (Variable ''p'')) (Variable ''q''))) = 5"
proof -
  have h: "operators (Binary AND (Unary NOT (Variable ''p'')) (Variable ''q'')) \<subseteq> {''~'', ''&''}"
    by simp
  show ?thesis
    using h nand_applications [OF h] by (simp add: Let_def)
qed

text \<open>
  C7, as stated, fails: the operations have an error path. The formula of 1000
  negations in front of \<open>q\<close> has no tag but \<open>~\<close>, so it is over the documented input
  alphabet of each of the five operations, and with 1000 frames, the recursion limit an
  interpreter starts with, each of them raises \<open>RecursionError\<close> on it.
\<close>

theorem recursion_limit_counterexample:
  "operators (nested_not 1000 (Variable ''q'')) \<subseteq> {''~''}
   \<and> to_not_and_or_frames 1000 (nested_not 1000 (Variable ''q'')) = Inl RecursionError
   \<and> to_not_and_frames 1000 (nested_not 1000 (Variable ''q'')) = Inl RecursionError
   \<and> to_nand_frames 1000 (nested_not 1000 (Variable ''q'')) = Inl RecursionError
   \<and> to_implies_not_frames 1000 (nested_not 1000 (Variable ''q'')) = Inl RecursionError
   \<and> to_implies_false_frames 1000 (nested_not 1000 (Variable ''q'')) = Inl RecursionError"
proof -
  have ops: "operators (nested_not 1000 (Variable ''q'')) \<subseteq> {''~''}"
    by (rule operators_nested_not)
  have fixed: "to_not_and_or (nested_not 1000 (Variable ''q'')) = nested_not 1000 (Variable ''q'')"
    using ops by (intro to_not_and_or_id subset_not_and_or)
  have deep: "depth (nested_not 1000 (Variable ''q'')) = 1001"
    by (simp add: depth_nested_not)
  show ?thesis
    using ops
    by (simp add: to_not_and_or_frames_eq to_not_and_frames_eq to_nand_frames_eq
        to_implies_not_frames_eq to_implies_false_frames_eq fixed deep)
qed

text \<open>
  C7, amended. On a formula over its documented input alphabet, each operation returns
  when the frames left are at least the depth of the formula and the frames of the
  calls around its recursion: the depth for \<open>to_not_and_or\<close>, one more for
  \<open>to_not_and\<close> and \<open>to_implies_not\<close>, two more for \<open>to_nand\<close>; for
  \<open>to_implies_false\<close> the depths are those of the formulas it converts on the way,
  and three times the depth of the input is enough. With fewer frames it raises
  \<open>RecursionError\<close>, and it has no other error. What it returns is the formula of the
  conversion above, over the target alphabet and with the truth value of the input in
  every model.
\<close>

theorem operations_total_in_frames:
  "(to_not_and_or_frames n fa =
      (if depth fa \<le> n then Inr (to_not_and_or fa) else Inl RecursionError)
    \<and> operators (to_not_and_or fa) \<subseteq> {''~'', ''&'', ''|''}
    \<and> evaluate (to_not_and_or fa) model = evaluate fa model)
   \<and> (operators fb \<subseteq> {''~'', ''&'', ''|''} \<longrightarrow>
        to_not_and_frames n fb =
          (if depth fb + 1 \<le> n then Inr (to_not_and fb) else Inl RecursionError)
        \<and> operators (to_not_and fb) \<subseteq> {''~'', ''&''}
        \<and> evaluate (to_not_and fb) model = evaluate fb model)
   \<and> (operators fc \<subseteq> {''~'', ''&''} \<longrightarrow>
        to_nand_frames n fc =
          (if depth fc + 2 \<le> n then Inr (to_nand fc) else Inl RecursionError)
        \<and> operators (to_nand fc) \<subseteq> {''-&''}
        \<and> evaluate (to_nand fc) model = evaluate fc model)
   \<and> (operators fd \<subseteq> {''~'', ''&'', ''|''} \<longrightarrow>
        to_implies_not_frames n fd =
          (if depth fd + 1 \<le> n then Inr (to_implies_not fd) else Inl RecursionError)
        \<and> operators (to_implies_not fd) \<subseteq> {''->'', ''~''}
        \<and> evaluate (to_implies_not fd) model = evaluate fd model)
   \<and> (operators fe \<subseteq> {''->'', ''~''} \<longrightarrow>
        to_implies_false_frames n fe =
          (if depth (to_not_and_or fe) + 2 \<le> n \<and> depth (to_implies_not fe) + 1 \<le> n
           then Inr (to_implies_false fe) else Inl RecursionError)
        \<and> (3 * depth fe \<le> n \<longrightarrow>
             to_implies_false_frames n fe = Inr (to_implies_false fe))
        \<and> operators (to_implies_false fe) \<subseteq> {''->'', ''F''}
        \<and> evaluate (to_implies_false fe) model = evaluate fe model)"
proof -
  have c2: "to_not_and_frames n fb =
      (if depth fb + 1 \<le> n then Inr (to_not_and fb) else Inl RecursionError)"
    if "operators fb \<subseteq> {''~'', ''&'', ''|''}"
    using that by (simp add: to_not_and_frames_eq to_not_and_or_id)
  have c3: "to_nand_frames n fc =
      (if depth fc + 2 \<le> n then Inr (to_nand fc) else Inl RecursionError)"
    if "operators fc \<subseteq> {''~'', ''&''}"
    using that
    by (simp add: to_nand_frames_eq to_not_and_id to_not_and_or_id not_and_subset)
  have c4: "to_implies_not_frames n fd =
      (if depth fd + 1 \<le> n then Inr (to_implies_not fd) else Inl RecursionError)"
    if "operators fd \<subseteq> {''~'', ''&'', ''|''}"
    using that by (simp add: to_implies_not_frames_eq to_not_and_or_id)
  have c5: "to_implies_false_frames n fe = Inr (to_implies_false fe)"
    if "operators fe \<subseteq> {''->'', ''~''}" and "3 * depth fe \<le> n"
  proof -
    have "depth (to_not_and_or fe) + 1 \<le> 2 * depth fe"
      using that(1) by (rule depth_to_not_and_or_implies_not)
    moreover have "depth (to_implies_not fe) + 2 \<le> 3 * depth fe"
      using depth_to_implies_not_implies_not [OF that(1)] by (simp add: to_implies_not_eq)
    moreover have "0 < depth fe"
      by (rule depth_positive)
    ultimately have "depth (to_not_and_or fe) + 2 \<le> n \<and> depth (to_implies_not fe) + 1 \<le> n"
      using that(2) by arith
    then show ?thesis
      by (simp add: to_implies_false_frames_eq)
  qed
  show ?thesis
    using c2 c3 c4 c5
    by (simp add: to_not_and_or_frames_eq to_implies_false_frames_eq
        operators_to_not_and_or operators_to_not_and operators_to_nand
        operators_to_implies_not operators_to_implies_false
        evaluate_to_not_and_or evaluate_to_not_and evaluate_to_nand
        evaluate_to_implies_not evaluate_to_implies_false)
qed

theorem operations_total_in_frames_witness:
  "depth (Binary NOR (Variable ''q'') (Constant False)) \<le> 9
   \<and> to_not_and_or_frames 9 (Binary NOR (Variable ''q'') (Constant False)) =
       Inr (Unary NOT (Binary OR (Variable ''q'')
         (Binary AND (Variable ''p'') (Unary NOT (Variable ''p'')))))
   \<and> operators (Binary OR (Variable ''p'') (Variable ''q'')) \<subseteq> {''~'', ''&'', ''|''}
   \<and> depth (Binary OR (Variable ''p'') (Variable ''q'')) + 1 \<le> 9
   \<and> to_not_and_frames 9 (Binary OR (Variable ''p'') (Variable ''q'')) =
       Inr (Unary NOT (Binary AND (Unary NOT (Variable ''p'')) (Unary NOT (Variable ''q''))))
   \<and> operators (Unary NOT (Binary AND (Variable ''p'') (Variable ''q''))) \<subseteq> {''~'', ''&''}
   \<and> depth (Unary NOT (Binary AND (Variable ''p'') (Variable ''q''))) + 2 \<le> 9
   \<and> to_nand_frames 9 (Unary NOT (Binary AND (Variable ''p'') (Variable ''q''))) =
       Inr (Binary NAND
         (Binary NAND (Binary NAND (Variable ''p'') (Variable ''q''))
            (Binary NAND (Variable ''p'') (Variable ''q'')))
         (Binary NAND (Binary NAND (Variable ''p'') (Variable ''q''))
            (Binary NAND (Variable ''p'') (Variable ''q''))))
   \<and> operators (Binary OR (Variable ''p'') (Unary NOT (Variable ''q''))) \<subseteq> {''~'', ''&'', ''|''}
   \<and> depth (Binary OR (Variable ''p'') (Unary NOT (Variable ''q''))) + 1 \<le> 9
   \<and> to_implies_not_frames 9 (Binary OR (Variable ''p'') (Unary NOT (Variable ''q''))) =
       Inr (Binary IMPLIES (Unary NOT (Variable ''p'')) (Unary NOT (Variable ''q'')))
   \<and> operators (Binary IMPLIES (Unary NOT (Variable ''p'')) (Variable ''q'')) \<subseteq> {''->'', ''~''}
   \<and> 3 * depth (Binary IMPLIES (Unary NOT (Variable ''p'')) (Variable ''q'')) \<le> 9
   \<and> to_implies_false_frames 9 (Binary IMPLIES (Unary NOT (Variable ''p'')) (Variable ''q'')) =
       Inr (Binary IMPLIES
         (Binary IMPLIES
            (Binary IMPLIES (Binary IMPLIES (Variable ''p'') (Constant False))
               (Constant False))
            (Constant False))
         (Variable ''q''))
   \<and> to_implies_false_frames 5 (Binary IMPLIES (Unary NOT (Variable ''p'')) (Variable ''q'')) =
       Inl RecursionError"
  using operations_total_in_frames
    [where n = 9 and model = "\<lambda>x. False"
       and fa = "Binary NOR (Variable ''q'') (Constant False)"
       and fb = "Binary OR (Variable ''p'') (Variable ''q'')"
       and fc = "Unary NOT (Binary AND (Variable ''p'') (Variable ''q''))"
       and fd = "Binary OR (Variable ''p'') (Unary NOT (Variable ''q''))"
       and fe = "Binary IMPLIES (Unary NOT (Variable ''p'')) (Variable ''q'')"]
    operations_total_in_frames
    [where n = 5 and fe = "Binary IMPLIES (Unary NOT (Variable ''p'')) (Variable ''q'')"]
  by (simp add: to_not_and_def to_nand_def to_implies_not_def to_implies_false_def Let_def)

text \<open>
  C8. The output of \<open>to_not_and_or\<close> is never a constant, and neither is the output of
  \<open>to_implies_not\<close>. So the tests \<open>is_constant(f1.root)\<close> of \<open>to_implies_not\<close> and of
  \<open>to_implies_false\<close> are false on every input: both operations return what their
  local function makes of \<open>f1\<close>.
\<close>

theorem constant_branches_unreachable:
  "\<not> is_constant (to_not_and_or f)
   \<and> \<not> is_constant (to_implies_not f)
   \<and> to_implies_not f = convert_to_implies_not (to_not_and_or f)
   \<and> to_implies_false f = convert_to_implies_false (to_implies_not f)"
  using not_constant_to_not_and_or [of f] not_constant_to_implies_not [of f]
    to_implies_not_eq [of f] to_implies_false_eq [of f]
  by simp

text \<open>
  C9. \<open>to_not_and_or\<close> returns a formula over variables, \<open>~\<close>, \<open>&\<close> and \<open>|\<close> as it
  is; hence applying it twice gives what applying it once gives, on every formula.
\<close>

theorem to_not_and_or_idempotent:
  "(operators f \<subseteq> {''~'', ''&'', ''|''} \<longrightarrow> to_not_and_or f = f)
   \<and> to_not_and_or (to_not_and_or g) = to_not_and_or g"
  by (simp add: to_not_and_or_id operators_to_not_and_or)

theorem to_not_and_or_idempotent_witness:
  "operators (Binary AND (Unary NOT (Variable ''p'')) (Binary OR (Variable ''q'') (Variable ''r'')))
     \<subseteq> {''~'', ''&'', ''|''}
   \<and> to_not_and_or (Binary AND (Unary NOT (Variable ''p'')) (Binary OR (Variable ''q'') (Variable ''r'')))
       = Binary AND (Unary NOT (Variable ''p'')) (Binary OR (Variable ''q'') (Variable ''r''))
   \<and> to_not_and_or (to_not_and_or (Binary XOR (Variable ''q'') (Constant False)))
       = to_not_and_or (Binary XOR (Variable ''q'') (Constant False))"
  using to_not_and_or_idempotent
    [of "Binary AND (Unary NOT (Variable ''p'')) (Binary OR (Variable ''q'') (Variable ''r''))"
        "Binary XOR (Variable ''q'') (Constant False)"]
  by simp

text \<open>
  C10. Each of \<open>to_not_and\<close>, \<open>to_nand\<close>, \<open>to_implies_not\<close> and \<open>to_implies_false\<close>
  first applies the conversions before it in the chain, whatever the input is. So on
  every formula, over the whole alphabet, its output lies in its target alphabet and
  has the truth value of the input in every model.
\<close>

theorem downstream_operations_on_every_formula:
  "to_not_and f = convert_or (to_not_and_or f)
   \<and> to_nand f = convert_to_nand (convert_or (to_not_and_or f))
   \<and> to_implies_not f = convert_to_implies_not (to_not_and_or f)
   \<and> to_implies_false f = convert_to_implies_false (convert_to_implies_not (to_not_and_or f))
   \<and> operators (to_not_and f) \<subseteq> {''~'', ''&''}
   \<and> operators (to_nand f) \<subseteq> {''-&''}
   \<and> operators (to_implies_not f) \<subseteq> {''->'', ''~''}
   \<and> operators (to_implies_false f) \<subseteq> {''->'', ''F''}
   \<and> evaluate (to_not_and f) model = evaluate f model
   \<and> evaluate (to_nand f) model = evaluate f model
   \<and> evaluate (to_implies_not f) model = evaluate f model
   \<and> evaluate (to_implies_false f) model = evaluate f model"
proof -
  have "to_not_and f = convert_or (to_not_and_or f)"
    by (simp add: to_not_and_def)
  moreover have "to_nand f = convert_to_nand (convert_or (to_not_and_or f))"
    by (simp add: to_nand_def to_not_and_def)
  moreover have "to_implies_false f =
      convert_to_implies_false (convert_to_implies_not (to_not_and_or f))"
    by (simp add: to_implies_false_eq to_implies_not_eq)
  moreover note to_implies_not_eq [of f]
    operators_to_not_and [of f] operators_to_nand [of f]
    operators_to_implies_not [of f] operators_to_implies_false [of f]
    evaluate_to_not_and [of f model] evaluate_to_nand [of f model]
    evaluate_to_implies_not [of f model] evaluate_to_implies_false [of f model]
  ultimately show ?thesis by blast
qed

end
